theory Spec2Isabelle
  imports Main "HOL-Library.Char_ord" "HOL-Library.List_Lexorder" "HOL-Library.Multiset"
begin

section \<open>FHIR snapshot generation: the data model\<close>

text \<open>
  The embedding follows \<^verbatim>\<open>src/snapshot-generator.ts\<close> and its older sibling
  \<^verbatim>\<open>src/snapshotGenerator.ts\<close>. Both files declare the same two interfaces and the
  same class \<^verbatim>\<open>FHIRSnapshotGenerator\<close>; their methods are the same text except for one
  statement of \<^verbatim>\<open>generateSnapshot\<close>, so each shared method is embedded once.

  Documents are JSON data (\<^verbatim>\<open>fromFile\<close> is \<^verbatim>\<open>JSON.parse\<close>) of the declared
  TypeScript types: an optional property is either absent (\<open>None\<close>) or carries a value of
  its type (\<open>Some v\<close>); reading an absent property gives \<^verbatim>\<open>undefined\<close>, which is
  \<open>None\<close> too. The properties \<^verbatim>\<open>min\<close> and \<^verbatim>\<open>max\<close> are declared required,
  but the code reads them with \<^verbatim>\<open>??\<close>, so they are optional here. Record fields carry
  a prefix, since \<^verbatim>\<open>id\<close>, \<^verbatim>\<open>min\<close>, \<^verbatim>\<open>max\<close>, \<^verbatim>\<open>map\<close> are constants of HOL
  and both interfaces have an \<^verbatim>\<open>id\<close>.
\<close>

datatype json =
    JNull
  | JBool bool
  | JNum int
  | JStr string
  | JArr "json list"
  | JObj "(string \<times> json) list"

record BaseRef =
  b_path :: string
  b_min :: int
  b_max :: string

record TypeRef =
  t_code :: string
  t_profile :: "string list option"
  t_targetProfile :: "string list option"

record MappingRef =
  m_identity :: string
  m_map :: string
  m_comment :: "string option"

record ElementDefinition =
  el_id :: "string option"
  el_path :: string
  el_min :: "int option"
  el_max :: "string option"
  el_base :: "BaseRef option"
  el_type :: "TypeRef list option"
  el_slicing :: "json option"
  el_sliceName :: "string option"
  el_patternIdentifier :: "json option"
  el_definition :: "string option"
  el_short :: "string option"
  el_alias :: "string list option"
  el_binding :: "json option"
  el_mapping :: "MappingRef list option"
  el_comment :: "string option"
  el_defaultValueBoolean :: "bool option"
  el_isModifier :: "bool option"
  el_isSummary :: "bool option"
  el_meaningWhenMissing :: "string option"
  el_constraint :: "json list option"
  el_extension :: "json list option"

text \<open>
  \<^verbatim>\<open>differential\<close> and \<^verbatim>\<open>snapshot\<close> are objects with the single property
  \<^verbatim>\<open>element\<close>; the fields below hold \<^verbatim>\<open>differential?.element\<close> and
  \<^verbatim>\<open>snapshot?.element\<close>.
\<close>

record StructureDefinition =
  sd_resourceType :: string
  sd_id :: string
  sd_url :: string
  sd_name :: string
  sd_title :: "string option"
  sd_status :: string
  sd_date :: "string option"
  sd_publisher :: "string option"
  sd_description :: "string option"
  sd_fhirVersion :: "string option"
  sd_baseDefinition :: string
  sd_derivation :: string
  sd_differential :: "ElementDefinition list option"
  sd_snapshot :: "ElementDefinition list option"

text \<open>
  Both throw statements raise a plain \<^verbatim>\<open>Error\<close> with a message; the two messages are
  named after the error kinds of the specification.
\<close>

datatype error = Error string

definition MissingDifferential :: error where
  "MissingDifferential = Error ''StructureDefinition must have differential elements''"

definition BaseDefinitionNotFound :: "string \<Rightarrow> error" where
  "BaseDefinitionNotFound resourceType =
     Error (''No base definition found for resource type: '' @ resourceType @
            ''. Neither local base-elements nor FHIR R4 core package contains this resource type.'')"

text \<open>
  The environment of a call: the files of the \<^verbatim>\<open>hl7.fhir.r4.core\<close> package, by file
  name, and the log of the resource types whose base definition has been asked for. A
  file is missing (\<^verbatim>\<open>existsSync\<close> is false), unreadable (\<^verbatim>\<open>readFileSync\<close> or
  \<^verbatim>\<open>JSON.parse\<close> throws) or parses to a document. The \<^verbatim>\<open>console.log\<close> lines are
  not modelled.
\<close>

datatype packageFile = NoFile | Unreadable | Parsed StructureDefinition

record world =
  files :: "string \<Rightarrow> packageFile"
  lookups :: "string list"

section \<open>The operations\<close>

definition corePackageFile :: "string \<Rightarrow> string" where
  "corePackageFile resourceType = ''StructureDefinition-'' @ resourceType @ ''.json''"

definition loadBaseStructureDefinition ::
  "string \<Rightarrow> world \<Rightarrow> ElementDefinition list \<times> world" where
  "loadBaseStructureDefinition resourceType w =
     (let w' = w\<lparr>lookups := lookups w @ [resourceType]\<rparr>
      in case files w (corePackageFile resourceType) of
           NoFile \<Rightarrow> ([], w')
         | Unreadable \<Rightarrow> ([], w')
         | Parsed baseStructureDef \<Rightarrow>
             (case sd_snapshot baseStructureDef of
                Some element \<Rightarrow> (element, w')
              | None \<Rightarrow> ([], w')))"

definition getBaseElements ::
  "string \<Rightarrow> world \<Rightarrow> (error + ElementDefinition list) \<times> world" where
  "getBaseElements resourceType w =
     (case loadBaseStructureDefinition resourceType w of
        (resourceElements, w') \<Rightarrow>
          (case resourceElements of
             [] \<Rightarrow> (Inl (BaseDefinitionNotFound resourceType), w')
           | e # _ \<Rightarrow>
               if el_path e = resourceType then (Inr resourceElements, w')
               else (Inl (BaseDefinitionNotFound resourceType), w')))"

text \<open>
  \<^verbatim>\<open>baseDefinition.match(/StructureDefinition\/(\w+)$/)\<close>: the search tries every start
  position from the left; at a position the pattern matches when the literal is followed
  by one or more word characters that reach the end of the string.
\<close>

definition isWordChar :: "char \<Rightarrow> bool" where
  "isWordChar c \<longleftrightarrow>
     (CHR ''a'' \<le> c \<and> c \<le> CHR ''z'') \<or> (CHR ''A'' \<le> c \<and> c \<le> CHR ''Z'') \<or>
     (CHR ''0'' \<le> c \<and> c \<le> CHR ''9'') \<or> c = CHR ''_''"

fun stripPrefix :: "string \<Rightarrow> string \<Rightarrow> string option" where
  "stripPrefix [] s = Some s"
| "stripPrefix (p # ps) [] = None"
| "stripPrefix (p # ps) (c # cs) = (if p = c then stripPrefix ps cs else None)"

definition matchHere :: "string \<Rightarrow> string option" where
  "matchHere s =
     (case stripPrefix ''StructureDefinition/'' s of
        None \<Rightarrow> None
      | Some r \<Rightarrow> if r \<noteq> [] \<and> list_all isWordChar r then Some r else None)"

fun matchSearch :: "string \<Rightarrow> string option" where
  "matchSearch [] = matchHere []"
| "matchSearch (c # cs) =
     (case matchHere (c # cs) of Some r \<Rightarrow> Some r | None \<Rightarrow> matchSearch cs)"

definition extractResourceType :: "string \<Rightarrow> string" where
  "extractResourceType baseDefinition =
     (case matchSearch baseDefinition of Some r \<Rightarrow> r | None \<Rightarrow> ''DomainResource'')"

text \<open>
  \<^verbatim>\<open>mergeElementDefinition\<close> walks the own keys of the differential element. Every branch
  of its chain is the assignment \<^verbatim>\<open>baseElement[key] = diffElement[key]\<close>; the branches
  for \<^verbatim>\<open>type\<close>, \<^verbatim>\<open>binding\<close>, \<^verbatim>\<open>slicing\<close> and \<^verbatim>\<open>extension\<close> ask for a truthy
  value, and a value they pass over reaches the last branch, which assigns whatever is
  not \<^verbatim>\<open>undefined\<close>. So a key of the differential element is always assigned, and a key
  it lacks leaves the base element's property as it was.
\<close>

definition assign :: "'a option \<Rightarrow> 'a option \<Rightarrow> 'a option" where
  "assign diffValue baseValue = (case diffValue of Some v \<Rightarrow> Some v | None \<Rightarrow> baseValue)"

definition mergeElementDefinition ::
  "ElementDefinition \<Rightarrow> ElementDefinition \<Rightarrow> ElementDefinition" where
  "mergeElementDefinition baseElement diffElement =
     \<lparr> el_id = assign (el_id diffElement) (el_id baseElement),
       el_path = el_path diffElement,
       el_min = assign (el_min diffElement) (el_min baseElement),
       el_max = assign (el_max diffElement) (el_max baseElement),
       el_base = assign (el_base diffElement) (el_base baseElement),
       el_type = assign (el_type diffElement) (el_type baseElement),
       el_slicing = assign (el_slicing diffElement) (el_slicing baseElement),
       el_sliceName = assign (el_sliceName diffElement) (el_sliceName baseElement),
       el_patternIdentifier =
         assign (el_patternIdentifier diffElement) (el_patternIdentifier baseElement),
       el_definition = assign (el_definition diffElement) (el_definition baseElement),
       el_short = assign (el_short diffElement) (el_short baseElement),
       el_alias = assign (el_alias diffElement) (el_alias baseElement),
       el_binding = assign (el_binding diffElement) (el_binding baseElement),
       el_mapping = assign (el_mapping diffElement) (el_mapping baseElement),
       el_comment = assign (el_comment diffElement) (el_comment baseElement),
       el_defaultValueBoolean =
         assign (el_defaultValueBoolean diffElement) (el_defaultValueBoolean baseElement),
       el_isModifier = assign (el_isModifier diffElement) (el_isModifier baseElement),
       el_isSummary = assign (el_isSummary diffElement) (el_isSummary baseElement),
       el_meaningWhenMissing =
         assign (el_meaningWhenMissing diffElement) (el_meaningWhenMissing baseElement),
       el_constraint = assign (el_constraint diffElement) (el_constraint baseElement),
       el_extension = assign (el_extension diffElement) (el_extension baseElement) \<rparr>"

text \<open>
  \<^verbatim>\<open>Array.prototype.find\<close> returns the first element that satisfies the predicate, and
  the merge then mutates that object where it sits in the array: the model finds its
  index and updates the list there.
\<close>

fun findIndex :: "('a \<Rightarrow> bool) \<Rightarrow> 'a list \<Rightarrow> nat option" where
  "findIndex P [] = None"
| "findIndex P (x # xs) =
     (if P x then Some 0 else (case findIndex P xs of None \<Rightarrow> None | Some i \<Rightarrow> Some (Suc i)))"

text \<open>\<^verbatim>\<open>!diffElement.sliceName\<close>: an absent name and the empty string are falsy.\<close>

definition truthy :: "string option \<Rightarrow> bool" where
  "truthy s \<longleftrightarrow> (case s of None \<Rightarrow> False | Some v \<Rightarrow> v \<noteq> [])"

text \<open>
  The search of the two \<^verbatim>\<open>find\<close> calls: by \<^verbatim>\<open>el.id === elementId\<close> first (two absent
  ids are \<^verbatim>\<open>undefined === undefined\<close>, which is true), then by path.
\<close>

definition findExisting :: "ElementDefinition list \<Rightarrow> ElementDefinition \<Rightarrow> nat option" where
  "findExisting snapshotElements diffElement =
     (case findIndex (\<lambda>el. el_id el = el_id diffElement) snapshotElements of
        Some i \<Rightarrow> Some i
      | None \<Rightarrow>
          findIndex (\<lambda>el. el_path el = el_path diffElement \<and> \<not> truthy (el_sliceName diffElement))
            snapshotElements)"

text \<open>
  The new element is \<^verbatim>\<open>JSON.parse(JSON.stringify(diffElement))\<close>, a structurally equal
  copy, with \<^verbatim>\<open>base\<close> filled in when it has none.
\<close>

definition newElement :: "ElementDefinition \<Rightarrow> ElementDefinition" where
  "newElement diffElement =
     (case el_base diffElement of
        Some b \<Rightarrow> diffElement
      | None \<Rightarrow>
          diffElement\<lparr> el_base :=
            Some \<lparr> b_path = el_path diffElement,
                   b_min = (case el_min diffElement of Some n \<Rightarrow> n | None \<Rightarrow> 0),
                   b_max = (case el_max diffElement of Some m \<Rightarrow> m | None \<Rightarrow> ''*'') \<rparr> \<rparr>)"

text \<open>
  The body of the \<^verbatim>\<open>forEach\<close> over the differential. The \<^verbatim>\<open>elementMap\<close> of the
  source is written and never read, and is left out.
\<close>

definition applyDiffElement ::
  "ElementDefinition list \<Rightarrow> ElementDefinition \<Rightarrow> ElementDefinition list" where
  "applyDiffElement snapshotElements diffElement =
     (case findExisting snapshotElements diffElement of
        Some i \<Rightarrow>
          snapshotElements[i := mergeElementDefinition (snapshotElements ! i) diffElement]
      | None \<Rightarrow> snapshotElements @ [newElement diffElement])"

definition applyDifferential ::
  "ElementDefinition list \<Rightarrow> ElementDefinition list \<Rightarrow> ElementDefinition list" where
  "applyDifferential baseElements differential = foldl applyDiffElement baseElements differential"

text \<open>\<^verbatim>\<open>path.split('.')\<close>: the pieces between the dots; the empty string gives one piece.\<close>

primrec split :: "char \<Rightarrow> string \<Rightarrow> string list" where
  "split sep [] = [[]]"
| "split sep (c # cs) =
     (if c = sep then [] # split sep cs
      else (case split sep cs of [] \<Rightarrow> [[c]] | piece # pieces \<Rightarrow> (c # piece) # pieces))"

text \<open>
  The comparator of the sort. \<^verbatim>\<open>String.prototype.localeCompare\<close> belongs to the
  JavaScript runtime and its collation data, not to this repository: it is the
  parameter \<open>localeCompare\<close>.
\<close>

definition compareElements ::
  "(string \<Rightarrow> string \<Rightarrow> int) \<Rightarrow> ElementDefinition \<Rightarrow> ElementDefinition \<Rightarrow> int" where
  "compareElements localeCompare a b =
     (let aDepth = int (length (split CHR ''.'' (el_path a)));
          bDepth = int (length (split CHR ''.'' (el_path b)))
      in if aDepth \<noteq> bDepth then aDepth - bDepth
         else localeCompare (el_path a) (el_path b))"

text \<open>
  \<^verbatim>\<open>Array.prototype.sort\<close> with a comparator is a stable sort: an element goes before
  the first one it does not compare greater than, and elements that compare equal keep
  their order.
\<close>

primrec insortBy :: "('a \<Rightarrow> 'a \<Rightarrow> int) \<Rightarrow> 'a \<Rightarrow> 'a list \<Rightarrow> 'a list" where
  "insortBy cmp x [] = [x]"
| "insortBy cmp x (y # ys) = (if cmp x y \<le> 0 then x # y # ys else y # insortBy cmp x ys)"

definition sortBy :: "('a \<Rightarrow> 'a \<Rightarrow> int) \<Rightarrow> 'a list \<Rightarrow> 'a list" where
  "sortBy cmp xs = foldr (insortBy cmp) xs []"

text \<open>
  \<^verbatim>\<open>orderBy(snapshotElements, ['path'], ['asc'])\<close> of lodash: a stable sort on the
  \<^verbatim>\<open>path\<close> strings, which lodash compares with \<^verbatim>\<open><\<close> and \<^verbatim>\<open>>\<close>, that is by
  code units, a proper prefix first. This is the order of \<^typ>\<open>string\<close> here.
\<close>

definition orderByPath :: "ElementDefinition list \<Rightarrow> ElementDefinition list" where
  "orderByPath snapshotElements = sort_key el_path snapshotElements"

text \<open>
  \<^verbatim>\<open>generateSnapshot\<close> of \<^verbatim>\<open>src/snapshot-generator.ts\<close>. The working list starts as
  \<^verbatim>\<open>JSON.parse(JSON.stringify(baseElements))\<close>, a structurally equal copy of the base
  elements; the result is the spread copy of the document with \<^verbatim>\<open>snapshot\<close> set and
  \<^verbatim>\<open>differential\<close> deleted.
\<close>

definition generateSnapshot ::
  "(string \<Rightarrow> string \<Rightarrow> int) \<Rightarrow> StructureDefinition \<Rightarrow> world \<Rightarrow>
     (error + StructureDefinition) \<times> world" where
  "generateSnapshot localeCompare structureDefinition w =
     (case sd_differential structureDefinition of
        None \<Rightarrow> (Inl MissingDifferential, w)
      | Some differential \<Rightarrow>
          (let resourceType = extractResourceType (sd_baseDefinition structureDefinition)
           in case getBaseElements resourceType w of
                (Inl e, w') \<Rightarrow> (Inl e, w')
              | (Inr baseElements, w') \<Rightarrow>
                  (let snapshotElements = applyDifferential baseElements differential;
                       sorted = sortBy (compareElements localeCompare) snapshotElements;
                       elements = orderByPath sorted
                   in (Inr (structureDefinition
                              \<lparr> sd_differential := None, sd_snapshot := Some elements \<rparr>),
                       w'))))"

text \<open>
  \<^verbatim>\<open>generateSnapshot\<close> of \<^verbatim>\<open>src/snapshotGenerator.ts\<close>: the same text without the
  \<^verbatim>\<open>orderBy\<close> line; the sorted array itself goes into the result.
\<close>

definition generateSnapshot_snapshotGenerator ::
  "(string \<Rightarrow> string \<Rightarrow> int) \<Rightarrow> StructureDefinition \<Rightarrow> world \<Rightarrow>
     (error + StructureDefinition) \<times> world" where
  "generateSnapshot_snapshotGenerator localeCompare structureDefinition w =
     (case sd_differential structureDefinition of
        None \<Rightarrow> (Inl MissingDifferential, w)
      | Some differential \<Rightarrow>
          (let resourceType = extractResourceType (sd_baseDefinition structureDefinition)
           in case getBaseElements resourceType w of
                (Inl e, w') \<Rightarrow> (Inl e, w')
              | (Inr baseElements, w') \<Rightarrow>
                  (let snapshotElements = applyDifferential baseElements differential;
                       sorted = sortBy (compareElements localeCompare) snapshotElements
                   in (Inr (structureDefinition
                              \<lparr> sd_differential := None, sd_snapshot := Some sorted \<rparr>),
                       w'))))"

section \<open>Predicates of the statements\<close>

text \<open>
  A comparator orders consistently when any two values are comparable and the
  comparison is transitive. This is what \<^verbatim>\<open>Array.prototype.sort\<close> asks of its
  comparator for the result to be the sorted order.
\<close>

definition consistent :: "('a \<Rightarrow> 'a \<Rightarrow> int) \<Rightarrow> bool" where
  "consistent c \<longleftrightarrow>
     (\<forall>a b. c a b \<le> 0 \<or> c b a \<le> 0) \<and>
     (\<forall>a b d. c a b \<le> 0 \<longrightarrow> c b d \<le> 0 \<longrightarrow> c a d \<le> 0)"

text \<open>A path of the resource type: the type name itself, or the name, a dot and more.\<close>

definition underType :: "string \<Rightarrow> string \<Rightarrow> bool" where
  "underType rt p \<longleftrightarrow> p = rt \<or> stripPrefix (rt @ ''.'') p \<noteq> None"

text \<open>
  The working list has paths of the resource type only, and one of its elements has the
  type name as its path and as its id.
\<close>

definition rootKept :: "string \<Rightarrow> ElementDefinition list \<Rightarrow> bool" where
  "rootKept rt ws \<longleftrightarrow>
     (\<forall>e\<in>set ws. underType rt (el_path e)) \<and>
     (\<exists>e\<in>set ws. el_path e = rt \<and> el_id e = Some rt)"

section \<open>Example data\<close>

text \<open>
  A collation for the examples: comparison by code units. The theorems below hold for
  every \<open>localeCompare\<close>, or state what they ask of it.
\<close>

definition codeUnitCompare :: "string \<Rightarrow> string \<Rightarrow> int" where
  "codeUnitCompare a b = (if a < b then - 1 else if b < a then 1 else 0)"

text \<open>An element that has only the given \<^verbatim>\<open>id\<close> and \<^verbatim>\<open>path\<close>.\<close>

definition element :: "string option \<Rightarrow> string \<Rightarrow> ElementDefinition" where
  "element i p =
     \<lparr> el_id = i, el_path = p, el_min = None, el_max = None, el_base = None,
       el_type = None, el_slicing = None, el_sliceName = None, el_patternIdentifier = None,
       el_definition = None, el_short = None, el_alias = None, el_binding = None,
       el_mapping = None, el_comment = None, el_defaultValueBoolean = None,
       el_isModifier = None, el_isSummary = None, el_meaningWhenMissing = None,
       el_constraint = None, el_extension = None \<rparr>"

text \<open>A document with the given \<^verbatim>\<open>baseDefinition\<close>, differential and snapshot.\<close>

definition document ::
  "string \<Rightarrow> ElementDefinition list option \<Rightarrow> ElementDefinition list option \<Rightarrow>
     StructureDefinition" where
  "document b d s =
     \<lparr> sd_resourceType = ''StructureDefinition'', sd_id = ''example'',
       sd_url = ''http://example.org/StructureDefinition/example'', sd_name = ''Example'',
       sd_title = None, sd_status = ''draft'', sd_date = None, sd_publisher = None,
       sd_description = None, sd_fhirVersion = None, sd_baseDefinition = b,
       sd_derivation = ''constraint'', sd_differential = d, sd_snapshot = s \<rparr>"

text \<open>A profile on Patient with the given differential.\<close>

definition patientProfile :: "ElementDefinition list option \<Rightarrow> StructureDefinition" where
  "patientProfile d = document ''http://hl7.org/fhir/StructureDefinition/Patient'' d None"

text \<open>
  A core package that holds \<^verbatim>\<open>StructureDefinition-Patient.json\<close> with the given
  snapshot elements and no other file; nothing has been looked up yet.
\<close>

definition corePackage :: "ElementDefinition list \<Rightarrow> world" where
  "corePackage es =
     \<lparr> files = (\<lambda>f. if f = ''StructureDefinition-Patient.json''
                     then Parsed (document
                            ''http://hl7.org/fhir/StructureDefinition/DomainResource'' None (Some es))
                     else NoFile),
       lookups = [] \<rparr>"

definition patient :: ElementDefinition where
  "patient = element (Some ''Patient'') ''Patient''"

definition patientName :: ElementDefinition where
  "patientName = element (Some ''Patient.name'') ''Patient.name''"

text \<open>Four elements of the Patient base definition, in the order of the package file.\<close>

definition patientBase :: "ElementDefinition list" where
  "patientBase =
     [patient,
      element (Some ''Patient.contact'') ''Patient.contact'',
      element (Some ''Patient.contact.name'') ''Patient.contact.name'',
      element (Some ''Patient.gender'') ''Patient.gender'']"

text \<open>A differential element without id that the Patient base definition does not have.\<close>

definition customExtension :: ElementDefinition where
  "customExtension = (element None ''Patient.customExtension'')\<lparr> el_max := Some ''1'' \<rparr>"

text \<open>
  The base elements and the differential of the test
  \<^verbatim>\<open>should sort elements by path depth and alphabetically\<close> of
  \<^verbatim>\<open>src/snapshot-generator.spec.ts\<close>: the base elements have ids, the differential
  elements have none.
\<close>

definition cardinality :: "int \<Rightarrow> string \<Rightarrow> ElementDefinition \<Rightarrow> ElementDefinition" where
  "cardinality n m e = e\<lparr> el_min := Some n, el_max := Some m \<rparr>"

definition testBase :: "ElementDefinition list" where
  "testBase =
     [cardinality 0 ''*'' (element (Some ''Patient'') ''Patient''),
      cardinality 0 ''*'' (element (Some ''Patient.identifier'') ''Patient.identifier''),
      cardinality 0 ''*'' (element (Some ''Patient.name'') ''Patient.name'')]"

definition testDifferential :: "ElementDefinition list" where
  "testDifferential =
     [cardinality 1 ''1'' (element None ''Patient.name.family''),
      cardinality 1 ''*'' (element None ''Patient.name''),
      cardinality 0 ''*'' (element None ''Patient.identifier'')]"

text \<open>
  What the three differential elements of the test leave behind: one element, with the
  path and cardinality of the last of them and the \<^verbatim>\<open>base\<close> of the first.
\<close>

definition leftover :: ElementDefinition where
  "leftover = (cardinality 0 ''*'' (element None ''Patient.identifier''))
     \<lparr> el_base := Some \<lparr> b_path = ''Patient.name.family'', b_min = 1, b_max = ''1'' \<rparr> \<rparr>"

text \<open>A slice of Patient.name that carries the id of the element it slices.\<close>

definition officialName :: ElementDefinition where
  "officialName = (element (Some ''Patient.name'') ''Patient.name'')
     \<lparr> el_min := Some 1, el_sliceName := Some ''official'' \<rparr>"

text \<open>A differential element whose \<^verbatim>\<open>sliceName\<close> is the empty string.\<close>

definition emptySliceName :: ElementDefinition where
  "emptySliceName = (element None ''Patient.name'')\<lparr> el_sliceName := Some [] \<rparr>"

text \<open>
  The slice of the test \<^verbatim>\<open>should handle elements with sliceName correctly\<close>: no id.
\<close>

definition officialSlice :: ElementDefinition where
  "officialSlice = (element None ''Patient.name'')
     \<lparr> el_min := Some 1, el_max := Some ''*'', el_sliceName := Some ''officialName'' \<rparr>"

text \<open>A differential element whose path is not a path of Patient.\<close>

definition account :: ElementDefinition where
  "account = element (Some ''Account'') ''Account''"

text \<open>A differential element with the id of the root element and another path.\<close>

definition renamedRoot :: ElementDefinition where
  "renamedRoot = element (Some ''Patient'') ''Patient.name''"

text \<open>A differential element for the root element.\<close>

definition namedRoot :: ElementDefinition where
  "namedRoot = (element (Some ''Patient'') ''Patient'')\<lparr> el_short := Some ''A patient'' \<rparr>"

text \<open>A second differential element without id, with a path that no other element has.\<close>

definition otherExtension :: ElementDefinition where
  "otherExtension = (element None ''Patient.otherExtension'')\<lparr> el_min := Some 1 \<rparr>"

section \<open>Facts about the operations\<close>

lemma findIndex_None_iff: "findIndex P xs = None \<longleftrightarrow> (\<forall>x\<in>set xs. \<not> P x)"
  by (induction xs) (auto split: option.splits)

lemma findIndex_Some:
  "findIndex P xs = Some i \<Longrightarrow> i < length xs \<and> P (xs ! i) \<and> (\<forall>j<i. \<not> P (xs ! j))"
proof (induction xs arbitrary: i)
  case Nil
  then show ?case by simp
next
  case (Cons x xs)
  show ?case
  proof (cases "P x")
    case True
    with Cons.prems show ?thesis by simp
  next
    case False
    with Cons.prems obtain k where k: "findIndex P xs = Some k" "i = Suc k"
      by (auto split: option.splits)
    from Cons.IH [OF k(1)] False k(2) show ?thesis
      by (auto simp: less_Suc_eq_0_disj)
  qed
qed

text \<open>No target is found exactly when no id is equal and the path rule finds nothing.\<close>

lemma findExisting_None_iff:
  "findExisting ws D = None \<longleftrightarrow>
     (\<forall>el\<in>set ws. el_id el \<noteq> el_id D) \<and>
     (\<forall>el\<in>set ws. el_path el = el_path D \<longrightarrow> truthy (el_sliceName D))"
  by (auto simp: findExisting_def findIndex_None_iff split: option.splits dest: findIndex_Some)

lemma loadBaseStructureDefinition_world:
  "snd (loadBaseStructureDefinition rt w) = w\<lparr>lookups := lookups w @ [rt]\<rparr>"
  by (simp add: loadBaseStructureDefinition_def Let_def split: packageFile.splits option.splits)

lemma getBaseElements_cases:
  "getBaseElements rt w =
     (if fst (loadBaseStructureDefinition rt w) \<noteq> [] \<and>
         el_path (hd (fst (loadBaseStructureDefinition rt w))) = rt
      then Inr (fst (loadBaseStructureDefinition rt w))
      else Inl (BaseDefinitionNotFound rt),
      w\<lparr>lookups := lookups w @ [rt]\<rparr>)"
  using loadBaseStructureDefinition_world [of rt w]
  by (cases "loadBaseStructureDefinition rt w")
     (auto simp: getBaseElements_def split: list.splits)

lemma MissingDifferential_neq: "MissingDifferential \<noteq> BaseDefinitionNotFound rt"
  by (simp add: MissingDifferential_def BaseDefinitionNotFound_def)

lemma BaseDefinitionNotFound_inj:
  "BaseDefinitionNotFound a = BaseDefinitionNotFound b \<longleftrightarrow> a = b"
  by (simp add: BaseDefinitionNotFound_def)

lemma generateSnapshot_cases:
  "sd_differential d = Some diff \<Longrightarrow>
   generateSnapshot lc d w =
     (let rt = extractResourceType (sd_baseDefinition d);
          base = fst (loadBaseStructureDefinition rt w)
      in (if base \<noteq> [] \<and> el_path (hd base) = rt
          then Inr (d\<lparr> sd_differential := None,
                       sd_snapshot := Some (orderByPath (sortBy (compareElements lc)
                                              (applyDifferential base diff))) \<rparr>)
          else Inl (BaseDefinitionNotFound rt),
          w\<lparr>lookups := lookups w @ [rt]\<rparr>))"
  by (simp add: generateSnapshot_def getBaseElements_cases Let_def)

lemma extract_patient:
  "extractResourceType (sd_baseDefinition (patientProfile d)) = ''Patient''"
  by (simp add: patientProfile_def document_def extractResourceType_def matchHere_def
        isWordChar_def)

lemma load_patient:
  "fst (loadBaseStructureDefinition ''Patient'' (corePackage es)) = es"
  by (simp add: loadBaseStructureDefinition_def corePackage_def corePackageFile_def
        document_def Let_def)

lemma applyDiffElement_None:
  "findExisting ws D = None \<Longrightarrow> applyDiffElement ws D = ws @ [newElement D]"
  by (simp add: applyDiffElement_def)

lemma newElement_frame: "(newElement D)\<lparr>el_base := el_base D\<rparr> = D"
  by (simp add: newElement_def split: option.splits)

lemma newElement_fields:
  "el_id (newElement D) = el_id D" "el_path (newElement D) = el_path D"
  "el_min (newElement D) = el_min D" "el_max (newElement D) = el_max D"
  "el_sliceName (newElement D) = el_sliceName D"
  by (simp_all add: newElement_def split: option.splits)

lemma findExisting_custom: "findExisting [patient] customExtension = None"
  by (simp add: findExisting_def patient_def customExtension_def element_def truthy_def)

lemma loadBaseStructureDefinition_files:
  "files w1 = files w2 \<Longrightarrow>
   fst (loadBaseStructureDefinition rt w1) = fst (loadBaseStructureDefinition rt w2)"
  by (simp add: loadBaseStructureDefinition_def Let_def split: packageFile.splits option.splits)

lemma generateSnapshot_files: "files (snd (generateSnapshot lc d w)) = files w"
proof (cases "sd_differential d")
  case None
  then show ?thesis by (simp add: generateSnapshot_def)
next
  case (Some diff)
  show ?thesis by (simp add: generateSnapshot_cases [OF Some] Let_def)
qed

lemma customExtension_snapshot:
  "orderByPath (sortBy (compareElements codeUnitCompare) (applyDifferential [patient] [customExtension]))
     = [patient, customExtension\<lparr> el_base :=
        Some \<lparr> b_path = ''Patient.customExtension'', b_min = 0, b_max = ''1'' \<rparr> \<rparr>]"
  by code_simp

lemma differential_patientProfile: "sd_differential (patientProfile d) = d"
  by (simp add: patientProfile_def document_def)

lemma set_insortBy: "set (insortBy c x xs) = insert x (set xs)"
  by (induction xs) auto

lemma set_sortBy: "set (sortBy c xs) = set xs"
  by (induction xs) (simp_all add: sortBy_def set_insortBy)

lemma mset_insortBy: "mset (insortBy c x xs) = add_mset x (mset xs)"
  by (induction xs) simp_all

lemma mset_sortBy: "mset (sortBy c xs) = mset xs"
  by (induction xs) (simp_all add: sortBy_def mset_insortBy)

lemma sortBy_Cons: "sortBy c (x # xs) = insortBy c x (sortBy c xs)"
  by (simp add: sortBy_def)

lemma sortBy_Nil: "sortBy c [] = []"
  by (simp add: sortBy_def)

lemma consistent_total: "consistent c \<Longrightarrow> \<not> c a b \<le> 0 \<Longrightarrow> c b a \<le> 0"
  unfolding consistent_def by blast

lemma consistent_trans: "consistent c \<Longrightarrow> c a b \<le> 0 \<Longrightarrow> c b d \<le> 0 \<Longrightarrow> c a d \<le> 0"
  unfolding consistent_def by blast

lemma sorted_insortBy:
  assumes c: "consistent c"
  shows "sorted_wrt (\<lambda>a b. c a b \<le> 0) xs \<Longrightarrow>
         sorted_wrt (\<lambda>a b. c a b \<le> 0) (insortBy c x xs)"
proof (induction xs)
  case Nil
  then show ?case by simp
next
  case (Cons y ys)
  from Cons.prems have y: "\<forall>z\<in>set ys. c y z \<le> 0"
    and ys: "sorted_wrt (\<lambda>a b. c a b \<le> 0) ys" by simp_all
  show ?case
  proof (cases "c x y \<le> 0")
    case True
    have "\<forall>z\<in>set ys. c x z \<le> 0"
    proof
      fix z assume "z \<in> set ys"
      with y have "c y z \<le> 0" by blast
      with True show "c x z \<le> 0" by (rule consistent_trans [OF c])
    qed
    with True y ys show ?thesis by simp
  next
    case False
    then have "c y x \<le> 0" by (rule consistent_total [OF c])
    with False y Cons.IH [OF ys] show ?thesis by (simp add: set_insortBy)
  qed
qed

lemma sorted_sortBy:
  "consistent c \<Longrightarrow> sorted_wrt (\<lambda>a b. c a b \<le> 0) (sortBy c xs)"
  by (induction xs) (simp_all add: sortBy_Nil sortBy_Cons sorted_insortBy)

lemma filter_insortBy:
  "P x \<Longrightarrow> \<forall>y\<in>set ys. P y \<longrightarrow> c x y \<le> 0 \<Longrightarrow>
   filter P (insortBy c x ys) = x # filter P ys"
  by (induction ys) auto

lemma filter_insortBy_not: "\<not> P x \<Longrightarrow> filter P (insortBy c x ys) = filter P ys"
  by (induction ys) auto

lemma filter_sortBy:
  "\<forall>x y. P x \<longrightarrow> P y \<longrightarrow> c x y \<le> 0 \<Longrightarrow> filter P (sortBy c xs) = filter P xs"
proof (induction xs)
  case Nil
  then show ?case by (simp add: sortBy_Nil)
next
  case (Cons x xs)
  then show ?case
    by (cases "P x") (simp_all add: sortBy_Cons filter_insortBy filter_insortBy_not)
qed

lemma sort_key_of_stable_perm:
  assumes "mset ys = mset xs"
    and "\<And>k. filter (\<lambda>x. f x = k) ys = filter (\<lambda>x. f x = k) xs"
  shows "sort_key f ys = sort_key f xs"
proof (rule properties_for_sort_key)
  show "mset (sort_key f xs) = mset ys" using assms(1) by simp
  show "sorted (map f (sort_key f xs))" by simp
  fix k
  have "filter (\<lambda>x. f k = f x) (sort_key f xs) = filter (\<lambda>x. f x = f k) (sort_key f xs)"
    by (rule filter_cong) auto
  also have "\<dots> = filter (\<lambda>x. f x = f k) xs" by (rule sort_key_stable)
  also have "\<dots> = filter (\<lambda>x. f x = f k) ys" by (rule assms(2) [symmetric])
  also have "\<dots> = filter (\<lambda>x. f k = f x) ys" by (rule filter_cong) auto
  finally show "filter (\<lambda>x. f k = f x) (sort_key f xs) = filter (\<lambda>x. f k = f x) ys" .
qed

lemma compareElements_same_path:
  "el_path a = el_path b \<Longrightarrow> compareElements lc a b = lc (el_path a) (el_path a)"
  by (simp add: compareElements_def)

text \<open>
  The sort keeps elements of one path in their order when the collation finds a string
  not greater than itself; the \<^verbatim>\<open>orderBy\<close> call then returns what it would return
  without the sort before it.
\<close>

lemma sortBy_compareElements_stable:
  assumes "\<forall>p. lc p p \<le> 0"
  shows "filter (\<lambda>x. el_path x = k) (sortBy (compareElements lc) xs)
           = filter (\<lambda>x. el_path x = k) xs"
  by (rule filter_sortBy) (use assms in \<open>simp add: compareElements_same_path\<close>)

lemma orderByPath_sortBy:
  assumes "\<forall>p. lc p p \<le> 0"
  shows "orderByPath (sortBy (compareElements lc) xs) = orderByPath xs"
  unfolding orderByPath_def
proof (rule sort_key_of_stable_perm)
  show "mset (sortBy (compareElements lc) xs) = mset xs" by (rule mset_sortBy)
  fix k
  show "filter (\<lambda>x. el_path x = k) (sortBy (compareElements lc) xs)
          = filter (\<lambda>x. el_path x = k) xs"
    by (rule filter_sortBy) (use assms in \<open>simp add: compareElements_same_path\<close>)
qed

lemma filter_key_distinct:
  "distinct (map f zs) \<Longrightarrow> length (filter (\<lambda>x. f x = k) zs) \<le> 1"
proof (induction zs)
  case Nil
  then show ?case by simp
next
  case (Cons z zs)
  then have IH: "length (filter (\<lambda>x. f x = k) zs) \<le> 1" and z: "f z \<notin> f ` set zs"
    by simp_all
  show ?case
  proof (cases "f z = k")
    case True
    have "\<forall>x\<in>set zs. f x \<noteq> k"
    proof (intro ballI notI)
      fix x assume "x \<in> set zs" "f x = k"
      with True have "f z \<in> f ` set zs" by (metis imageI)
      with z show False by contradiction
    qed
    then have "filter (\<lambda>x. f x = k) zs = []"
      by (simp add: filter_empty_conv)
    with True show ?thesis by simp
  next
    case False
    with IH show ?thesis by simp
  qed
qed

lemma filter_key_perm:
  assumes "mset ys = mset xs" "distinct (map f xs)"
  shows "filter (\<lambda>x. f x = k) ys = filter (\<lambda>x. f x = k) xs"
proof -
  have m: "mset (filter (\<lambda>x. f x = k) ys) = mset (filter (\<lambda>x. f x = k) xs)"
    by (simp only: mset_filter assms(1))
  show ?thesis
  proof (cases "filter (\<lambda>x. f x = k) xs")
    case Nil
    with m have "mset (filter (\<lambda>x. f x = k) ys) = {#}" by (simp only: mset.simps)
    then have "filter (\<lambda>x. f x = k) ys = []" by (simp only: mset_zero_iff)
    with Nil show ?thesis by (simp only:)
  next
    case (Cons a as)
    with filter_key_distinct [OF assms(2), of k] have "as = []" by simp
    with Cons have e: "filter (\<lambda>x. f x = k) xs = [a]" by (simp only:)
    have "mset (filter (\<lambda>x. f x = k) ys) = {#a#}" by (simp only: m e mset.simps)
    then have "{#a#} = mset (filter (\<lambda>x. f x = k) ys)" by (rule sym)
    then have "filter (\<lambda>x. f x = k) ys = [a]" by (simp only: mset_single_iff_right)
    with e show ?thesis by (simp only:)
  qed
qed

lemma orderByPath_perm_distinct:
  assumes "mset ys = mset xs" "distinct (map el_path xs)"
  shows "orderByPath ys = orderByPath xs"
  unfolding orderByPath_def
proof (rule sort_key_of_stable_perm)
  show "mset ys = mset xs" by (rule assms(1))
  fix k
  show "filter (\<lambda>x. el_path x = k) ys = filter (\<lambda>x. el_path x = k) xs"
    by (rule filter_key_perm [OF assms])
qed

lemma generateSnapshot_snapshotGenerator_cases:
  "sd_differential d = Some diff \<Longrightarrow>
   generateSnapshot_snapshotGenerator lc d w =
     (let rt = extractResourceType (sd_baseDefinition d);
          base = fst (loadBaseStructureDefinition rt w)
      in (if base \<noteq> [] \<and> el_path (hd base) = rt
          then Inr (d\<lparr> sd_differential := None,
                       sd_snapshot := Some (sortBy (compareElements lc)
                                              (applyDifferential base diff)) \<rparr>)
          else Inl (BaseDefinitionNotFound rt),
          w\<lparr>lookups := lookups w @ [rt]\<rparr>))"
  by (simp add: generateSnapshot_snapshotGenerator_def getBaseElements_cases Let_def)

text \<open>
  The newer file returns what the older one returns, with the elements put in path order.
\<close>

lemma generateSnapshot_reorders_snapshotGenerator:
  "generateSnapshot lc d w =
     (case generateSnapshot_snapshotGenerator lc d w of
        (Inl e, w') \<Rightarrow> (Inl e, w')
      | (Inr r, w') \<Rightarrow> (Inr (r\<lparr> sd_snapshot := map_option orderByPath (sd_snapshot r) \<rparr>), w'))"
proof (cases "sd_differential d")
  case None
  then show ?thesis
    by (simp add: generateSnapshot_def generateSnapshot_snapshotGenerator_def)
next
  case (Some diff)
  show ?thesis
    by (simp add: generateSnapshot_cases [OF Some]
          generateSnapshot_snapshotGenerator_cases [OF Some] Let_def)
qed

lemma consistent_compareElements:
  assumes "consistent lc"
  shows "consistent (compareElements lc)"
  unfolding consistent_def
proof (intro conjI allI impI)
  fix a b
  show "compareElements lc a b \<le> 0 \<or> compareElements lc b a \<le> 0"
    using consistent_total [OF assms, of "el_path a" "el_path b"]
    by (auto simp: compareElements_def Let_def)
next
  fix a b d
  assume "compareElements lc a b \<le> 0" "compareElements lc b d \<le> 0"
  then show "compareElements lc a d \<le> 0"
    using consistent_trans [OF assms, of "el_path a" "el_path b" "el_path d"]
    by (auto simp: compareElements_def Let_def split: if_splits)
qed

lemma snapshotGenerator_ordered:
  assumes "generateSnapshot_snapshotGenerator lc d w = (Inr r, w')" "consistent lc"
  shows "\<exists>es. sd_snapshot r = Some es \<and> sorted_wrt (\<lambda>a b. compareElements lc a b \<le> 0) es"
proof -
  from assms(1) obtain diff where diff: "sd_differential d = Some diff"
    by (cases "sd_differential d") (auto simp: generateSnapshot_snapshotGenerator_def)
  from assms(1) have "sd_snapshot r = Some (sortBy (compareElements lc)
      (applyDifferential (fst (loadBaseStructureDefinition
          (extractResourceType (sd_baseDefinition d)) w)) diff))"
    by (auto simp: generateSnapshot_snapshotGenerator_cases [OF diff] Let_def split: if_splits)
  with sorted_sortBy [OF consistent_compareElements [OF assms(2)]] show ?thesis by simp
qed

lemma applyDifferential_Nil: "applyDifferential base [] = base"
  by (simp add: applyDifferential_def)

lemma patientBase_paths: "distinct (map el_path patientBase)"
  by (simp add: patientBase_def patient_def element_def)

lemma orderByPath_patientBase: "orderByPath patientBase = patientBase"
  by (simp add: orderByPath_def patientBase_def patient_def element_def)

lemma hd_patientBase: "patientBase \<noteq> [] \<and> el_path (hd patientBase) = ''Patient''"
  by (simp add: patientBase_def patient_def element_def)

lemma patientBase_snapshot:
  "fst (generateSnapshot lc (patientProfile (Some [])) (corePackage patientBase))
     = Inr ((patientProfile (Some []))\<lparr> sd_differential := None, sd_snapshot := Some patientBase \<rparr>)"
proof -
  have "orderByPath (sortBy (compareElements lc) patientBase) = orderByPath patientBase"
    by (rule orderByPath_perm_distinct) (simp_all add: mset_sortBy patientBase_paths)
  then show ?thesis
    by (simp add: generateSnapshot_cases [OF differential_patientProfile] extract_patient
          load_patient hd_patientBase applyDifferential_Nil orderByPath_patientBase Let_def)
qed

lemma sortBy_patientBase:
  "sortBy (compareElements lc) patientBase =
     (if lc ''Patient.contact'' ''Patient.gender'' \<le> 0
      then [patientBase ! 0, patientBase ! 1, patientBase ! 3, patientBase ! 2]
      else [patientBase ! 0, patientBase ! 3, patientBase ! 1, patientBase ! 2])"
  by (simp add: sortBy_def patientBase_def patient_def element_def compareElements_def)

lemma stripPrefix_Some_iff: "stripPrefix a s = Some r \<longleftrightarrow> s = a @ r"
  by (induction a s rule: stripPrefix.induct) auto

lemma le_append: "(xs :: string) \<le> xs @ ys"
  by (induction xs) simp_all

lemma underType_le: "underType rt p \<Longrightarrow> rt \<le> p"
  unfolding underType_def using le_append [of rt]
  by (auto simp: stripPrefix_Some_iff)

lemma findExisting_Some:
  assumes "findExisting ws D = Some i"
  shows "i < length ws \<and>
     (el_id (ws ! i) = el_id D \<or>
      (el_path (ws ! i) = el_path D \<and> (\<forall>el\<in>set ws. el_id el \<noteq> el_id D)))"
proof (cases "findIndex (\<lambda>el. el_id el = el_id D) ws")
  case None
  with assms have "findIndex (\<lambda>el. el_path el = el_path D \<and> \<not> truthy (el_sliceName D)) ws = Some i"
    by (simp add: findExisting_def)
  from findIndex_Some [OF this] None show ?thesis
    by (simp add: findIndex_None_iff)
next
  case (Some j)
  with assms have "j = i" by (simp add: findExisting_def)
  with findIndex_Some [OF Some] show ?thesis by simp
qed

lemma mergeElementDefinition_path: "el_path (mergeElementDefinition b D) = el_path D"
  by (simp add: mergeElementDefinition_def)

lemma mergeElementDefinition_id: "el_id (mergeElementDefinition b D) = assign (el_id D) (el_id b)"
  by (simp add: mergeElementDefinition_def)

lemma rootKept_step:
  assumes inv: "rootKept rt ws"
    and p: "underType rt (el_path D)"
    and i1: "el_id D = Some rt \<longrightarrow> el_path D = rt"
    and i2: "el_path D = rt \<longrightarrow> el_id D = None \<or> el_id D = Some rt"
  shows "rootKept rt (applyDiffElement ws D)"
proof (cases "findExisting ws D")
  case None
  with inv p show ?thesis
    by (auto simp: rootKept_def applyDiffElement_def newElement_fields)
next
  case (Some i)
  let ?m = "mergeElementDefinition (ws ! i) D"
  from findExisting_Some [OF Some] have i: "i < length ws"
    and hit: "el_id (ws ! i) = el_id D \<or>
      (el_path (ws ! i) = el_path D \<and> (\<forall>el\<in>set ws. el_id el \<noteq> el_id D))"
    by simp_all
  from Some have ws': "applyDiffElement ws D = ws[i := ?m]"
    by (simp add: applyDiffElement_def)
  have paths: "\<forall>e\<in>set (ws[i := ?m]). underType rt (el_path e)"
  proof
    fix e assume "e \<in> set (ws[i := ?m])"
    then have "e = ?m \<or> e \<in> set ws"
      using set_update_subset_insert [of ws i ?m] by auto
    with inv p show "underType rt (el_path e)"
      by (auto simp: rootKept_def mergeElementDefinition_path)
  qed
  from inv obtain e where e: "e \<in> set ws" "el_path e = rt" "el_id e = Some rt"
    unfolding rootKept_def by blast
  then obtain j where j: "j < length ws" "ws ! j = e"
    by (auto simp: in_set_conv_nth)
  have "\<exists>e'\<in>set (ws[i := ?m]). el_path e' = rt \<and> el_id e' = Some rt"
  proof (cases "j = i")
    case False
    with j have "(ws[i := ?m]) ! j = e" "j < length (ws[i := ?m])" by simp_all
    then have "e \<in> set (ws[i := ?m])" by (metis nth_mem)
    with e show ?thesis by blast
  next
    case True
    with j e have t: "el_path (ws ! i) = rt" "el_id (ws ! i) = Some rt" by simp_all
    have "el_path ?m = rt \<and> el_id ?m = Some rt"
    proof (cases "el_id (ws ! i) = el_id D")
      case True
      with t i1 show ?thesis
        by (simp add: mergeElementDefinition_path mergeElementDefinition_id assign_def)
    next
      case False
      with hit have h: "el_path (ws ! i) = el_path D" "\<forall>el\<in>set ws. el_id el \<noteq> el_id D"
        by simp_all
      from h(1) t have "el_path D = rt" by simp
      moreover from False t have "el_id D \<noteq> Some rt" by simp
      ultimately have "el_id D = None" using i2 by simp
      with t \<open>el_path D = rt\<close> show ?thesis
        by (simp add: mergeElementDefinition_path mergeElementDefinition_id assign_def)
    qed
    moreover from i have "?m \<in> set (ws[i := ?m])" by (simp add: set_update_memI)
    ultimately show ?thesis by blast
  qed
  with paths ws' show ?thesis by (simp add: rootKept_def)
qed

lemma rootKept_applyDifferential:
  assumes "\<forall>D\<in>set diff. underType rt (el_path D) \<and>
             (el_id D = Some rt \<longrightarrow> el_path D = rt) \<and>
             (el_path D = rt \<longrightarrow> el_id D = None \<or> el_id D = Some rt)"
  shows "rootKept rt ws \<Longrightarrow> rootKept rt (applyDifferential ws diff)"
  using assms unfolding applyDifferential_def
proof (induction diff arbitrary: ws)
  case Nil
  then show ?case by simp
next
  case (Cons D diff)
  from Cons.prems have "rootKept rt (applyDiffElement ws D)"
    by (intro rootKept_step) simp_all
  with Cons show ?case by simp
qed

lemma hd_orderByPath:
  assumes "rootKept rt ws"
  shows "\<exists>e es. orderByPath (sortBy c ws) = e # es \<and> el_path e = rt"
proof -
  let ?es = "orderByPath (sortBy c ws)"
  have s: "set ?es = set ws" by (simp add: orderByPath_def set_sortBy)
  from assms obtain r where r: "r \<in> set ws" "el_path r = rt"
    unfolding rootKept_def by blast
  with s have "?es \<noteq> []" by auto
  then obtain e es where es: "?es = e # es" by (cases ?es) auto
  have "sorted (map el_path ?es)" by (simp add: orderByPath_def)
  with es have le: "\<forall>x\<in>set ?es. el_path e \<le> el_path x" by auto
  from r s have "el_path e \<le> rt" using le by auto
  moreover from es s have "e \<in> set ws" by auto
  with assms have "rt \<le> el_path e" unfolding rootKept_def by (auto intro: underType_le)
  ultimately have "el_path e = rt" by simp
  with es show ?thesis by blast
qed

lemma testDifferential_first:
  "applyDiffElement testBase (testDifferential ! 0)
     = testBase @ [(testDifferential ! 0)
         \<lparr> el_base := Some \<lparr> b_path = ''Patient.name.family'', b_min = 1, b_max = ''1'' \<rparr> \<rparr>]"
  by (simp add: applyDiffElement_def findExisting_def newElement_def truthy_def
        testBase_def testDifferential_def cardinality_def element_def)

lemma testDifferential_second:
  "findIndex (\<lambda>el. el_id el = el_id (testDifferential ! 1))
     (applyDiffElement testBase (testDifferential ! 0)) = Some 3"
  by (simp add: testDifferential_first) (simp add: testBase_def testDifferential_def cardinality_def element_def)

lemma applyDifferential_test: "applyDifferential testBase testDifferential = testBase @ [leftover]"
  by (simp add: applyDifferential_def applyDiffElement_def findExisting_def newElement_def
        truthy_def mergeElementDefinition_def assign_def leftover_def
        testBase_def testDifferential_def cardinality_def element_def)

lemma snapshot_test: "orderByPath (sortBy (compareElements codeUnitCompare) (testBase @ [leftover]))
   = [testBase ! 0, testBase ! 1, leftover, testBase ! 2]"
  by code_simp

lemma snapshot_account: "orderByPath (sortBy (compareElements codeUnitCompare) (applyDifferential [patient] [account]))
  = [account\<lparr> el_base := Some \<lparr> b_path = ''Account'', b_min = 0, b_max = ''*'' \<rparr> \<rparr>, patient]"
  by code_simp

lemma snapshot_renamedRoot: "orderByPath (sortBy (compareElements codeUnitCompare) (applyDifferential [patient] [renamedRoot]))
  = [renamedRoot]"
  by code_simp

lemma path_patient: "el_path patient = ''Patient''"
  by (simp add: patient_def element_def)

lemma newElement_customExtension:
  "newElement customExtension = customExtension\<lparr> el_base :=
     Some \<lparr> b_path = ''Patient.customExtension'', b_min = 0, b_max = ''1'' \<rparr> \<rparr>"
  by (simp add: newElement_def customExtension_def element_def)

lemma applyDiffElement_customExtension:
  "applyDiffElement [patient] customExtension = [patient, newElement customExtension]"
  by (simp add: applyDiffElement_None findExisting_custom)

lemma applyDiffElement_otherExtension:
  "applyDiffElement [patient, newElement customExtension] otherExtension
     = [patient, (newElement customExtension)
                   \<lparr> el_path := ''Patient.otherExtension'', el_min := Some 1 \<rparr>]"
  by (simp add: newElement_customExtension)
     (simp add: applyDiffElement_def findExisting_def mergeElementDefinition_def assign_def
        truthy_def otherExtension_def customExtension_def patient_def element_def)

lemma snapshot_otherExtension:
  "orderByPath (sortBy (compareElements codeUnitCompare)
     (applyDifferential [patient] [customExtension, otherExtension]))
   = [patient, (newElement customExtension)
                 \<lparr> el_path := ''Patient.otherExtension'', el_min := Some 1 \<rparr>]"
  by code_simp

lemma snapshotGenerator_result:
  "generateSnapshot_snapshotGenerator lc d w = (Inr r, w') \<Longrightarrow>
   \<exists>diff. sd_differential d = Some diff \<and>
     r = d\<lparr> sd_differential := None,
            sd_snapshot := Some (sortBy (compareElements lc)
                   (applyDifferential
                      (fst (loadBaseStructureDefinition
                              (extractResourceType (sd_baseDefinition d)) w)) diff)) \<rparr>"
proof -
  assume run: "generateSnapshot_snapshotGenerator lc d w = (Inr r, w')"
  then obtain diff where diff: "sd_differential d = Some diff"
    by (cases "sd_differential d") (auto simp: generateSnapshot_snapshotGenerator_def)
  from run have "r = d\<lparr> sd_differential := None,
        sd_snapshot := Some (sortBy (compareElements lc)
                   (applyDifferential
                      (fst (loadBaseStructureDefinition
                              (extractResourceType (sd_baseDefinition d)) w)) diff)) \<rparr>"
    by (simp add: generateSnapshot_snapshotGenerator_cases [OF diff] Let_def split: if_splits)
  with diff show ?thesis by blast
qed

lemma patientBase_not_sorted:
  "\<not> sorted_wrt (\<lambda>a b. compareElements lc a b \<le> 0) patientBase"
  by (simp add: patientBase_def patient_def element_def compareElements_def)

lemma sortBy_patientBase_neq: "sortBy (compareElements lc) patientBase \<noteq> patientBase"
  by (simp add: sortBy_patientBase) (simp add: patientBase_def patient_def element_def)

section \<open>Missing differential\<close>

text \<open>
  Claim C6. A document without \<^verbatim>\<open>differential.element\<close> fails with the
  MissingDifferential error at once: the error is returned together with the
  environment as it was, so no base definition has been looked up (the log of lookups
  has not grown).
\<close>

theorem missing_differential_before_lookup:
  "sd_differential d = None \<Longrightarrow> generateSnapshot lc d w = (Inl MissingDifferential, w)"
  by (simp add: generateSnapshot_def)

theorem missing_differential_before_lookup_witness:
  "sd_differential (patientProfile None) = None \<and>
   generateSnapshot codeUnitCompare (patientProfile None) (corePackage patientBase)
     = (Inl MissingDifferential, corePackage patientBase) \<and>
   lookups (snd (generateSnapshot codeUnitCompare (patientProfile None) (corePackage patientBase))) = []"
proof -
  have h: "sd_differential (patientProfile None) = None"
    by (simp add: patientProfile_def document_def)
  show ?thesis
    using h missing_differential_before_lookup [OF h, of codeUnitCompare "corePackage patientBase"]
    by (simp add: corePackage_def)
qed

section \<open>Base definition not found\<close>

text \<open>
  Claim C5. The retrieval fails with the BaseDefinitionNotFound error for the resource
  type exactly when the retrieved element sequence is empty or the path of its first
  element is not the resource type name, and it fails with no other error; the message
  determines the resource type name. A call of generateSnapshot that reaches the
  retrieval (the document has \<^verbatim>\<open>differential.element\<close>) fails with that error in
  exactly the same case, for the resource type extracted from \<^verbatim>\<open>baseDefinition\<close>, and
  with no other error.
\<close>

theorem base_definition_not_found_iff:
  "(fst (getBaseElements rt w) = Inl (BaseDefinitionNotFound rt) \<longleftrightarrow>
      fst (loadBaseStructureDefinition rt w) = [] \<or>
      el_path (hd (fst (loadBaseStructureDefinition rt w))) \<noteq> rt) \<and>
   (\<forall>e. fst (getBaseElements rt w) = Inl e \<longrightarrow> e = BaseDefinitionNotFound rt) \<and>
   (\<forall>rt'. BaseDefinitionNotFound rt' = BaseDefinitionNotFound rt \<longrightarrow> rt' = rt) \<and>
   (sd_differential d \<noteq> None \<longrightarrow>
      (fst (generateSnapshot lc d w)
         = Inl (BaseDefinitionNotFound (extractResourceType (sd_baseDefinition d))) \<longleftrightarrow>
       fst (loadBaseStructureDefinition (extractResourceType (sd_baseDefinition d)) w) = [] \<or>
       el_path (hd (fst (loadBaseStructureDefinition
                           (extractResourceType (sd_baseDefinition d)) w)))
         \<noteq> extractResourceType (sd_baseDefinition d)) \<and>
      (\<forall>e. fst (generateSnapshot lc d w) = Inl e \<longrightarrow>
           e = BaseDefinitionNotFound (extractResourceType (sd_baseDefinition d))))"
proof (intro conjI impI)
  show "fst (getBaseElements rt w) = Inl (BaseDefinitionNotFound rt) \<longleftrightarrow>
      fst (loadBaseStructureDefinition rt w) = [] \<or>
      el_path (hd (fst (loadBaseStructureDefinition rt w))) \<noteq> rt"
    by (simp add: getBaseElements_cases)
  show "\<forall>e. fst (getBaseElements rt w) = Inl e \<longrightarrow> e = BaseDefinitionNotFound rt"
    by (simp add: getBaseElements_cases)
  show "\<forall>rt'. BaseDefinitionNotFound rt' = BaseDefinitionNotFound rt \<longrightarrow> rt' = rt"
    by (simp add: BaseDefinitionNotFound_inj)
next
  assume "sd_differential d \<noteq> None"
  then obtain diff where diff: "sd_differential d = Some diff" by auto
  show "fst (generateSnapshot lc d w)
         = Inl (BaseDefinitionNotFound (extractResourceType (sd_baseDefinition d))) \<longleftrightarrow>
       fst (loadBaseStructureDefinition (extractResourceType (sd_baseDefinition d)) w) = [] \<or>
       el_path (hd (fst (loadBaseStructureDefinition
                           (extractResourceType (sd_baseDefinition d)) w)))
         \<noteq> extractResourceType (sd_baseDefinition d)"
    by (simp add: generateSnapshot_cases [OF diff] Let_def)
  show "\<forall>e. fst (generateSnapshot lc d w) = Inl e \<longrightarrow>
           e = BaseDefinitionNotFound (extractResourceType (sd_baseDefinition d))"
    by (simp add: generateSnapshot_cases [OF diff] Let_def)
qed

theorem base_definition_not_found_iff_witness:
  "sd_differential (patientProfile (Some [])) \<noteq> None \<and>
   fst (generateSnapshot codeUnitCompare (patientProfile (Some [])) (corePackage []))
     = Inl (BaseDefinitionNotFound ''Patient'') \<and>
   fst (getBaseElements ''Patient'' (corePackage [patientName]))
     = Inl (BaseDefinitionNotFound ''Patient'') \<and>
   fst (getBaseElements ''Patient'' (corePackage [patient]))
     \<noteq> Inl (BaseDefinitionNotFound ''Patient'')"
proof -
  have h: "sd_differential (patientProfile (Some [])) \<noteq> None"
    by (simp add: patientProfile_def document_def)
  have a: "fst (generateSnapshot codeUnitCompare (patientProfile (Some [])) (corePackage []))
             = Inl (BaseDefinitionNotFound ''Patient'')"
    using base_definition_not_found_iff
            [of "''Patient''" "corePackage []" "patientProfile (Some [])" codeUnitCompare,
             THEN conjunct2, THEN conjunct2, THEN conjunct2, rule_format, OF h, THEN conjunct1]
    by (simp add: extract_patient load_patient)
  have b: "fst (getBaseElements ''Patient'' (corePackage [patientName]))
             = Inl (BaseDefinitionNotFound ''Patient'')"
    using base_definition_not_found_iff
            [of "''Patient''" "corePackage [patientName]" "patientProfile (Some [])"
                codeUnitCompare, THEN conjunct1]
    by (simp add: load_patient patientName_def element_def)
  have c: "fst (getBaseElements ''Patient'' (corePackage [patient]))
             \<noteq> Inl (BaseDefinitionNotFound ''Patient'')"
    using base_definition_not_found_iff
            [of "''Patient''" "corePackage [patient]" "patientProfile (Some [])"
                codeUnitCompare, THEN conjunct1]
    by (simp add: load_patient patient_def element_def)
  from h a b c show ?thesis by blast
qed

section \<open>Synthesis of new elements\<close>

text \<open>
  Claim C7. A differential element that matches no target is not always appended. The
  differential below has two elements without id, Patient.customExtension and
  Patient.otherExtension, on the base element Patient. The first is appended, with its
  \<^verbatim>\<open>base\<close> filled in. The second has no id and no slice name, and no working element
  has its path, so it matches no target by either rule; yet the search by id, made with
  an absent id, finds the element just appended (index 1), and the second element is
  merged into it: the working list keeps two elements, the second with the path and
  \<^verbatim>\<open>min\<close> of Patient.otherExtension and the \<^verbatim>\<open>max\<close> and \<^verbatim>\<open>base\<close> of
  Patient.customExtension. No element for Patient.otherExtension with its own
  \<^verbatim>\<open>base\<close> is synthesized.
\<close>

theorem unmatched_element_without_id_not_appended:
  "el_id otherExtension = None \<and> el_sliceName otherExtension = None \<and>
   el_path patient \<noteq> el_path otherExtension \<and>
   el_path (newElement customExtension) \<noteq> el_path otherExtension \<and>
   applyDiffElement [patient] customExtension = [patient, newElement customExtension] \<and>
   findExisting [patient, newElement customExtension] otherExtension = Some 1 \<and>
   applyDiffElement [patient, newElement customExtension] otherExtension
     = [patient, (newElement customExtension)
                   \<lparr> el_path := ''Patient.otherExtension'', el_min := Some 1 \<rparr>] \<and>
   applyDiffElement [patient, newElement customExtension] otherExtension
     \<noteq> [patient, newElement customExtension] @ [newElement otherExtension] \<and>
   fst (generateSnapshot codeUnitCompare
          (patientProfile (Some [customExtension, otherExtension])) (corePackage [patient]))
     = Inr ((patientProfile (Some [customExtension, otherExtension]))
              \<lparr> sd_differential := None,
                sd_snapshot :=
                  Some [patient, (newElement customExtension)
                          \<lparr> el_path := ''Patient.otherExtension'', el_min := Some 1 \<rparr>] \<rparr>)"
proof -
  have a: "el_id otherExtension = None" "el_sliceName otherExtension = None"
      "el_path patient \<noteq> el_path otherExtension"
      "el_path (newElement customExtension) \<noteq> el_path otherExtension"
    by (simp_all add: newElement_fields otherExtension_def customExtension_def patient_def
          element_def)
  have f: "findExisting [patient, newElement customExtension] otherExtension = Some 1"
    by (simp add: findExisting_def newElement_fields otherExtension_def customExtension_def
          patient_def element_def)
  have n: "applyDiffElement [patient, newElement customExtension] otherExtension
     \<noteq> [patient, newElement customExtension] @ [newElement otherExtension]"
    by (simp add: applyDiffElement_otherExtension)
  have g: "fst (generateSnapshot codeUnitCompare
          (patientProfile (Some [customExtension, otherExtension])) (corePackage [patient]))
     = Inr ((patientProfile (Some [customExtension, otherExtension]))
              \<lparr> sd_differential := None,
                sd_snapshot :=
                  Some [patient, (newElement customExtension)
                          \<lparr> el_path := ''Patient.otherExtension'', el_min := Some 1 \<rparr>] \<rparr>)"
    by (simp add: generateSnapshot_cases [OF differential_patientProfile] extract_patient
          load_patient Let_def snapshot_otherExtension path_patient)
  from a f n g applyDiffElement_customExtension applyDiffElement_otherExtension
  show ?thesis by blast
qed

text \<open>
  Where the two searches of the code find nothing, the synthesis is what the claim says:
  the working list grows by one element N at its end and is otherwise unchanged; N is D
  in every property other than \<^verbatim>\<open>base\<close>; its \<^verbatim>\<open>base\<close> is that of D when D has
  one, and otherwise the path of D with the \<^verbatim>\<open>min\<close> of N, or 0, and the \<^verbatim>\<open>max\<close>
  of N, or an asterisk. By \<open>findExisting_None_iff\<close> the searches find nothing when
  no working element has an id equal to that of D, an absent id being equal to an
  absent id, and none has the path of D unless D has a non-empty slice name.
\<close>

lemma synthesized_element_appended:
  "findExisting ws D = None \<Longrightarrow>
   (\<exists>N. applyDiffElement ws D = ws @ [N] \<and>
        N\<lparr>el_base := el_base D\<rparr> = D \<and>
        el_base N =
          (case el_base D of
             Some b \<Rightarrow> Some b
           | None \<Rightarrow>
               Some \<lparr> b_path = el_path D,
                      b_min = (case el_min N of Some n \<Rightarrow> n | None \<Rightarrow> 0),
                      b_max = (case el_max N of Some m \<Rightarrow> m | None \<Rightarrow> ''*'') \<rparr>))"
proof -
  assume "findExisting ws D = None"
  then have "applyDiffElement ws D = ws @ [newElement D]"
    by (rule applyDiffElement_None)
  moreover have "(newElement D)\<lparr>el_base := el_base D\<rparr> = D"
    by (rule newElement_frame)
  moreover have "el_base (newElement D) =
          (case el_base D of
             Some b \<Rightarrow> Some b
           | None \<Rightarrow>
               Some \<lparr> b_path = el_path D,
                      b_min = (case el_min (newElement D) of Some n \<Rightarrow> n | None \<Rightarrow> 0),
                      b_max = (case el_max (newElement D) of Some m \<Rightarrow> m | None \<Rightarrow> ''*'') \<rparr>)"
    by (simp add: newElement_def split: option.splits)
  ultimately show ?thesis by blast
qed

lemma synthesized_element_appended_example:
  "findExisting [patient] customExtension = None \<and>
   applyDiffElement [patient] customExtension =
     [patient,
      customExtension\<lparr> el_base :=
        Some \<lparr> b_path = ''Patient.customExtension'', b_min = 0, b_max = ''1'' \<rparr> \<rparr>]"
proof -
  obtain N where N: "applyDiffElement [patient] customExtension = [patient] @ [N]"
      "N\<lparr>el_base := el_base customExtension\<rparr> = customExtension"
      "el_base N =
          (case el_base customExtension of
             Some b \<Rightarrow> Some b
           | None \<Rightarrow>
               Some \<lparr> b_path = el_path customExtension,
                      b_min = (case el_min N of Some n \<Rightarrow> n | None \<Rightarrow> 0),
                      b_max = (case el_max N of Some m \<Rightarrow> m | None \<Rightarrow> ''*'') \<rparr>)"
    using synthesized_element_appended [OF findExisting_custom] by blast
  from N(2) have "el_min (N\<lparr>el_base := el_base customExtension\<rparr>) = el_min customExtension"
      "el_max (N\<lparr>el_base := el_base customExtension\<rparr>) = el_max customExtension"
    by simp_all
  then have "el_min N = el_min customExtension" "el_max N = el_max customExtension"
    by simp_all
  with N(3) have b:
    "el_base N = Some \<lparr> b_path = ''Patient.customExtension'', b_min = 0, b_max = ''1'' \<rparr>"
    by (simp add: customExtension_def element_def)
  from N(2) have "(N\<lparr>el_base := el_base customExtension\<rparr>)\<lparr>el_base := el_base N\<rparr>
                    = customExtension\<lparr>el_base := el_base N\<rparr>"
    by simp
  then have "N = customExtension\<lparr>el_base := el_base N\<rparr>" by simp
  with b have "N = customExtension\<lparr> el_base :=
        Some \<lparr> b_path = ''Patient.customExtension'', b_min = 0, b_max = ''1'' \<rparr> \<rparr>"
    by simp
  with N(1) findExisting_custom show ?thesis by simp
qed

section \<open>Document assembly\<close>

text \<open>
  Claim C8. The \<^verbatim>\<open>snapshot\<close> of the returned document is not always the sorted
  working list. For the profile on Patient with an empty differential and the four
  base elements of the example, whatever the collation: the result is the input
  document without \<^verbatim>\<open>differential\<close> and with the base elements in their given
  order as \<^verbatim>\<open>snapshot\<close>; the working list is these base elements; sorting it with the
  comparator gives another list, and the list returned is not in the order of the
  comparator.
\<close>

theorem snapshot_is_not_sorted_working_list:
  "fst (generateSnapshot lc (patientProfile (Some [])) (corePackage patientBase))
     = Inr ((patientProfile (Some []))
              \<lparr> sd_differential := None, sd_snapshot := Some patientBase \<rparr>) \<and>
   applyDifferential
     (fst (loadBaseStructureDefinition
             (extractResourceType (sd_baseDefinition (patientProfile (Some []))))
             (corePackage patientBase))) [] = patientBase \<and>
   sortBy (compareElements lc) patientBase \<noteq> patientBase \<and>
   \<not> sorted_wrt (\<lambda>a b. compareElements lc a b \<le> 0) patientBase"
  by (simp add: patientBase_snapshot extract_patient load_patient applyDifferential_Nil
        sortBy_patientBase_neq patientBase_not_sorted)

text \<open>
  The rest of the claim holds. A document that generateSnapshot returns is the input
  document with the \<^verbatim>\<open>differential\<close> property removed and the \<^verbatim>\<open>snapshot\<close> property
  set; every other property is that of the input, and the result has no
  \<^verbatim>\<open>differential\<close>. The snapshot is the sorted working list put through
  \<^verbatim>\<open>orderBy\<close>. In the older file it is the sorted working list itself
  (\<open>snapshotGenerator_result\<close>).
\<close>

lemma result_is_copy_without_differential:
  "generateSnapshot lc d w = (Inr r, w') \<Longrightarrow>
   (\<exists>diff elements.
      sd_differential d = Some diff \<and>
      r = d\<lparr> sd_differential := None, sd_snapshot := Some elements \<rparr> \<and>
      elements = orderByPath (sortBy (compareElements lc)
                   (applyDifferential
                      (fst (loadBaseStructureDefinition
                              (extractResourceType (sd_baseDefinition d)) w)) diff))) \<and>
   sd_differential r = None \<and> sd_snapshot r \<noteq> None"
proof -
  assume run: "generateSnapshot lc d w = (Inr r, w')"
  then obtain diff where diff: "sd_differential d = Some diff"
    by (cases "sd_differential d") (auto simp: generateSnapshot_def)
  from run have r: "r = d\<lparr> sd_differential := None,
        sd_snapshot := Some (orderByPath (sortBy (compareElements lc)
                   (applyDifferential
                      (fst (loadBaseStructureDefinition
                              (extractResourceType (sd_baseDefinition d)) w)) diff))) \<rparr>"
    by (simp add: generateSnapshot_cases [OF diff] Let_def split: if_splits)
  then have "sd_differential r = None" "sd_snapshot r \<noteq> None" by simp_all
  with diff r show ?thesis by blast
qed

lemma result_is_copy_without_differential_example:
  "generateSnapshot codeUnitCompare (patientProfile (Some [customExtension])) (corePackage [patient])
     = (Inr ((patientProfile (Some [customExtension]))
               \<lparr> sd_differential := None,
                 sd_snapshot := Some [patient, customExtension\<lparr> el_base :=
                   Some \<lparr> b_path = ''Patient.customExtension'', b_min = 0, b_max = ''1'' \<rparr> \<rparr>] \<rparr>),
        (corePackage [patient])\<lparr> lookups := [''Patient''] \<rparr>) \<and>
   sd_differential ((patientProfile (Some [customExtension]))
               \<lparr> sd_differential := None,
                 sd_snapshot := Some [patient, customExtension\<lparr> el_base :=
                   Some \<lparr> b_path = ''Patient.customExtension'', b_min = 0, b_max = ''1'' \<rparr> \<rparr>] \<rparr>) = None"
proof -
  have run: "generateSnapshot codeUnitCompare (patientProfile (Some [customExtension])) (corePackage [patient])
     = (Inr ((patientProfile (Some [customExtension]))
               \<lparr> sd_differential := None,
                 sd_snapshot := Some [patient, customExtension\<lparr> el_base :=
                   Some \<lparr> b_path = ''Patient.customExtension'', b_min = 0, b_max = ''1'' \<rparr> \<rparr>] \<rparr>),
        (corePackage [patient])\<lparr> lookups := [''Patient''] \<rparr>)"
    by (simp add: generateSnapshot_cases [OF differential_patientProfile] extract_patient load_patient Let_def customExtension_snapshot)
       (simp add: patient_def element_def corePackage_def)
  from run result_is_copy_without_differential [OF run] show ?thesis by blast
qed

section \<open>Determinism\<close>

text \<open>
  Claim C10. The result of generateSnapshot depends on the document, on the collation
  and on what the lookup of the base elements returns, and on nothing else in the
  environment: two calls on the same document whose lookups return the same elements
  give the same result, the \<^verbatim>\<open>snapshot.element\<close> array included. The witness is a second
  call in the environment that the first call left behind.
\<close>

theorem same_lookup_same_result:
  "fst (loadBaseStructureDefinition (extractResourceType (sd_baseDefinition d)) w1)
     = fst (loadBaseStructureDefinition (extractResourceType (sd_baseDefinition d)) w2) \<Longrightarrow>
   fst (generateSnapshot lc d w1) = fst (generateSnapshot lc d w2)"
proof (cases "sd_differential d")
  case None
  then show ?thesis by (simp add: generateSnapshot_def)
next
  case (Some diff)
  assume "fst (loadBaseStructureDefinition (extractResourceType (sd_baseDefinition d)) w1)
     = fst (loadBaseStructureDefinition (extractResourceType (sd_baseDefinition d)) w2)"
  then show ?thesis by (simp add: generateSnapshot_cases [OF Some] Let_def)
qed

theorem same_lookup_same_result_witness:
  "fst (loadBaseStructureDefinition
          (extractResourceType (sd_baseDefinition (patientProfile (Some [customExtension]))))
          (corePackage patientBase))
     = fst (loadBaseStructureDefinition
          (extractResourceType (sd_baseDefinition (patientProfile (Some [customExtension]))))
          (snd (generateSnapshot codeUnitCompare (patientProfile (Some [customExtension]))
                  (corePackage patientBase)))) \<and>
   fst (generateSnapshot codeUnitCompare (patientProfile (Some [customExtension]))
          (corePackage patientBase))
     = fst (generateSnapshot codeUnitCompare (patientProfile (Some [customExtension]))
          (snd (generateSnapshot codeUnitCompare (patientProfile (Some [customExtension]))
                  (corePackage patientBase))))"
proof -
  have h: "fst (loadBaseStructureDefinition
          (extractResourceType (sd_baseDefinition (patientProfile (Some [customExtension]))))
          (corePackage patientBase))
     = fst (loadBaseStructureDefinition
          (extractResourceType (sd_baseDefinition (patientProfile (Some [customExtension]))))
          (snd (generateSnapshot codeUnitCompare (patientProfile (Some [customExtension]))
                  (corePackage patientBase))))"
    by (rule loadBaseStructureDefinition_files) (simp add: generateSnapshot_files)
  from h same_lookup_same_result [OF h, of codeUnitCompare] show ?thesis by blast
qed

section \<open>Ordering of the snapshot\<close>

text \<open>
  Claim C1. In \<^verbatim>\<open>src/snapshot-generator.ts\<close> the elements returned are not ordered by
  depth first. For a profile on Patient with an empty differential and the base
  elements Patient, Patient.contact, Patient.contact.name, Patient.gender, whatever the
  collation, the snapshot has the elements in this order, with depths 1, 2, 3, 2: the
  comparator of the sort puts the third element after the fourth. The \<^verbatim>\<open>orderBy\<close>
  call that follows the sort orders by the path string alone
  (\<open>orderByPath_sortBy\<close>), while the older file, which has no such call, returns
  the order of the comparator for every collation that orders consistently
  (\<open>snapshotGenerator_ordered\<close>).
\<close>

theorem snapshot_not_ordered_by_depth:
  "fst (generateSnapshot lc (patientProfile (Some [])) (corePackage patientBase))
     = Inr ((patientProfile (Some []))\<lparr> sd_differential := None, sd_snapshot := Some patientBase \<rparr>) \<and>
   map (\<lambda>e. length (split CHR ''.'' (el_path e))) patientBase = [1, 2, 3, 2] \<and>
   0 < compareElements lc (patientBase ! 2) (patientBase ! 3)"
  by (simp add: patientBase_snapshot)
     (simp add: patientBase_def patient_def element_def compareElements_def)

section \<open>Matching by id\<close>

text \<open>
  Claim C2. The search by id is made for a differential element without an id too, and
  finds the first working element without an id. With the base elements and the
  differential of the repository's own sorting test: the first differential element,
  Patient.name.family, has no id, finds nothing and is appended; the second,
  Patient.name, has no id either and is matched by the id rule to the element just
  appended (index 3), not by path to the base element Patient.name; the third goes the
  same way. The working list ends as the three untouched base elements and one element
  with the path Patient.identifier, and the snapshot has no Patient.name.family.
\<close>

theorem element_without_id_matched_by_id:
  "el_id (testDifferential ! 0) = None \<and> el_id (testDifferential ! 1) = None \<and>
   applyDiffElement testBase (testDifferential ! 0)
     = testBase @ [(testDifferential ! 0)
         \<lparr> el_base := Some \<lparr> b_path = ''Patient.name.family'', b_min = 1, b_max = ''1'' \<rparr> \<rparr>] \<and>
   findIndex (\<lambda>el. el_id el = el_id (testDifferential ! 1))
     (applyDiffElement testBase (testDifferential ! 0)) = Some 3 \<and>
   applyDifferential testBase testDifferential = testBase @ [leftover] \<and>
   fst (generateSnapshot codeUnitCompare (patientProfile (Some testDifferential))
          (corePackage testBase))
     = Inr ((patientProfile (Some testDifferential))
              \<lparr> sd_differential := None,
                sd_snapshot := Some [testBase ! 0, testBase ! 1, leftover, testBase ! 2] \<rparr>)"
proof -
  have "el_id (testDifferential ! 0) = None" "el_id (testDifferential ! 1) = None"
    by (simp_all add: testDifferential_def cardinality_def element_def)
  moreover have "testBase \<noteq> [] \<and> el_path (hd testBase) = ''Patient''"
    by (simp add: testBase_def cardinality_def element_def)
  then have "fst (generateSnapshot codeUnitCompare (patientProfile (Some testDifferential))
          (corePackage testBase))
     = Inr ((patientProfile (Some testDifferential))
              \<lparr> sd_differential := None,
                sd_snapshot := Some [testBase ! 0, testBase ! 1, leftover, testBase ! 2] \<rparr>)"
    by (simp add: generateSnapshot_cases [OF differential_patientProfile] extract_patient
          load_patient Let_def applyDifferential_test snapshot_test)
  ultimately show ?thesis
    using testDifferential_first testDifferential_second applyDifferential_test by blast
qed

section \<open>Slices\<close>

text \<open>
  Claim C3, as stated, fails. A differential element with \<^verbatim>\<open>sliceName\<close> set and the
  path of an existing element without slice name is merged into an existing element
  when its id is the id of a working element, since the search by id comes first; and
  an empty \<^verbatim>\<open>sliceName\<close> is falsy, so the search by path is not blocked by it.
\<close>

theorem slice_merged_by_id_counterexample:
  "el_sliceName officialName = Some ''official'' \<and>
   el_path officialName = el_path patientName \<and>
   el_sliceName patientName = None \<and>
   applyDiffElement [patient, patientName] officialName
     = [patient, patientName\<lparr> el_min := Some 1, el_sliceName := Some ''official'' \<rparr>] \<and>
   applyDiffElement [patient, patientName] officialName
     \<noteq> [patient, patientName] @ [newElement officialName] \<and>
   el_sliceName emptySliceName = Some [] \<and>
   el_path emptySliceName = el_path patientName \<and>
   applyDiffElement [patient, patientName] emptySliceName
     = [patient, patientName\<lparr> el_sliceName := Some [] \<rparr>]"
  by (simp add: applyDiffElement_def findExisting_def mergeElementDefinition_def assign_def
        truthy_def officialName_def emptySliceName_def patient_def patientName_def element_def)

text \<open>
  Claim C3, amended. A differential element with a non-empty \<^verbatim>\<open>sliceName\<close> whose id is
  the id of no working element (and, when it has no id, every working element has one)
  is appended as a new element, a copy with its slice name and path, and the working
  elements stay as they are, whether or not one of them has the same path.
\<close>

theorem slice_without_id_match_is_appended:
  "truthy (el_sliceName D) \<Longrightarrow> \<forall>el\<in>set ws. el_id el \<noteq> el_id D \<Longrightarrow>
   applyDiffElement ws D = ws @ [newElement D] \<and>
   el_sliceName (newElement D) = el_sliceName D \<and> el_path (newElement D) = el_path D"
  by (simp add: applyDiffElement_None findExisting_None_iff newElement_fields)

theorem slice_without_id_match_is_appended_witness:
  "truthy (el_sliceName officialSlice) \<and>
   el_id patient \<noteq> el_id officialSlice \<and> el_id patientName \<noteq> el_id officialSlice \<and>
   el_path officialSlice = el_path patientName \<and>
   applyDiffElement [patient, patientName] officialSlice
     = [patient, patientName,
        officialSlice\<lparr> el_base :=
          Some \<lparr> b_path = ''Patient.name'', b_min = 1, b_max = ''*'' \<rparr> \<rparr>]"
proof -
  have t: "truthy (el_sliceName officialSlice)"
    by (simp add: officialSlice_def truthy_def)
  have i: "\<forall>el\<in>set [patient, patientName]. el_id el \<noteq> el_id officialSlice"
    by (simp add: officialSlice_def patient_def patientName_def element_def)
  have n: "newElement officialSlice = officialSlice\<lparr> el_base :=
          Some \<lparr> b_path = ''Patient.name'', b_min = 1, b_max = ''*'' \<rparr> \<rparr>"
    by (simp add: newElement_def officialSlice_def element_def)
  have p: "el_path officialSlice = el_path patientName"
    by (simp add: officialSlice_def patientName_def element_def)
  from i have i': "el_id patient \<noteq> el_id officialSlice"
      "el_id patientName \<noteq> el_id officialSlice"
    by simp_all
  from slice_without_id_match_is_appended [OF t i] t i' n p show ?thesis by simp
qed

section \<open>The first element of the snapshot\<close>

text \<open>
  Claim C4, as stated, fails. The base elements of Patient exist in both runs below. A
  differential element with the path Account is appended and ordered before Patient; a
  differential element with the id of the root element and the path Patient.name is
  merged into the root element and takes its path away. In both runs the path of the
  first element of the snapshot is not Patient.
\<close>

theorem first_element_counterexample:
  "extractResourceType (sd_baseDefinition (patientProfile (Some [account]))) = ''Patient'' \<and>
   fst (generateSnapshot codeUnitCompare (patientProfile (Some [account])) (corePackage [patient]))
     = Inr ((patientProfile (Some [account]))
              \<lparr> sd_differential := None,
                sd_snapshot := Some [account\<lparr> el_base :=
                    Some \<lparr> b_path = ''Account'', b_min = 0, b_max = ''*'' \<rparr> \<rparr>, patient] \<rparr>) \<and>
   fst (generateSnapshot codeUnitCompare (patientProfile (Some [renamedRoot])) (corePackage [patient]))
     = Inr ((patientProfile (Some [renamedRoot]))
              \<lparr> sd_differential := None, sd_snapshot := Some [renamedRoot] \<rparr>) \<and>
   el_path account \<noteq> ''Patient'' \<and> el_path renamedRoot \<noteq> ''Patient''"
  by (simp add: generateSnapshot_cases [OF differential_patientProfile] extract_patient
        load_patient Let_def snapshot_account snapshot_renamedRoot path_patient)
     (simp add: account_def renamedRoot_def element_def)

text \<open>
  Claim C4, amended. Let the document have a differential and let the base elements
  exist, the first of them with the resource type name as its path and as its id. If
  every path of a base or differential element is a path of the resource type, and a
  differential element has the type name as its id only together with the type name as
  its path, and the type name as its path only together with that id or no id, then
  generateSnapshot returns a document whose first snapshot element has the resource
  type name as its path.
\<close>

theorem first_element_is_resource_type:
  assumes "sd_differential d = Some diff"
    and "fst (loadBaseStructureDefinition (extractResourceType (sd_baseDefinition d)) w)
           = e0 # base"
    and "el_path e0 = extractResourceType (sd_baseDefinition d)"
    and "el_id e0 = Some (extractResourceType (sd_baseDefinition d))"
    and "\<forall>e\<in>set (e0 # base) \<union> set diff.
           underType (extractResourceType (sd_baseDefinition d)) (el_path e)"
    and "\<forall>D\<in>set diff.
           (el_id D = Some (extractResourceType (sd_baseDefinition d)) \<longrightarrow>
              el_path D = extractResourceType (sd_baseDefinition d)) \<and>
           (el_path D = extractResourceType (sd_baseDefinition d) \<longrightarrow>
              el_id D = None \<or> el_id D = Some (extractResourceType (sd_baseDefinition d)))"
  shows "\<exists>r w' e es. generateSnapshot lc d w = (Inr r, w') \<and>
           sd_snapshot r = Some (e # es) \<and>
           el_path e = extractResourceType (sd_baseDefinition d)"
proof -
  let ?rt = "extractResourceType (sd_baseDefinition d)"
  have "rootKept ?rt (e0 # base)"
    using assms(3,4,5) by (auto simp: rootKept_def)
  moreover have "\<forall>D\<in>set diff. underType ?rt (el_path D) \<and>
             (el_id D = Some ?rt \<longrightarrow> el_path D = ?rt) \<and>
             (el_path D = ?rt \<longrightarrow> el_id D = None \<or> el_id D = Some ?rt)"
    using assms(5,6) by blast
  ultimately have "rootKept ?rt (applyDifferential (e0 # base) diff)"
    by (rule rootKept_applyDifferential [rotated])
  from hd_orderByPath [OF this, of "compareElements lc"] obtain e es
    where "orderByPath (sortBy (compareElements lc) (applyDifferential (e0 # base) diff)) = e # es"
      "el_path e = ?rt" by blast
  then show ?thesis
    using assms(2,3) by (simp add: generateSnapshot_cases [OF assms(1)] Let_def)
qed

theorem first_element_is_resource_type_witness:
  "sd_differential (patientProfile (Some [officialSlice, namedRoot]))
     = Some [officialSlice, namedRoot] \<and>
   fst (loadBaseStructureDefinition ''Patient'' (corePackage patientBase)) = patientBase \<and>
   list_all (\<lambda>e. underType ''Patient'' (el_path e)) (patientBase @ [officialSlice, namedRoot]) \<and>
   (\<exists>r w' e es.
      generateSnapshot codeUnitCompare (patientProfile (Some [officialSlice, namedRoot]))
        (corePackage patientBase) = (Inr r, w') \<and>
      sd_snapshot r = Some (e # es) \<and> el_path e = ''Patient'')"
proof -
  let ?d = "patientProfile (Some [officialSlice, namedRoot])"
  let ?rest = "[element (Some ''Patient.contact'') ''Patient.contact'',
      element (Some ''Patient.contact.name'') ''Patient.contact.name'',
      element (Some ''Patient.gender'') ''Patient.gender'']"
  have rt: "extractResourceType (sd_baseDefinition ?d) = ''Patient''"
    by (rule extract_patient)
  have 1: "sd_differential ?d = Some [officialSlice, namedRoot]"
    by (rule differential_patientProfile)
  have 2: "fst (loadBaseStructureDefinition (extractResourceType (sd_baseDefinition ?d))
             (corePackage patientBase)) = patient # ?rest"
    by (simp only: rt load_patient patientBase_def)
  have 3: "el_path patient = extractResourceType (sd_baseDefinition ?d)"
    by (simp only: rt) (simp add: patient_def element_def)
  have 4: "el_id patient = Some (extractResourceType (sd_baseDefinition ?d))"
    by (simp only: rt) (simp add: patient_def element_def)
  have 5: "\<forall>e\<in>set (patient # ?rest) \<union> set [officialSlice, namedRoot].
           underType (extractResourceType (sd_baseDefinition ?d)) (el_path e)"
    by (simp only: rt)
       (simp add: underType_def patient_def element_def officialSlice_def namedRoot_def)
  have 6: "\<forall>D\<in>set [officialSlice, namedRoot].
           (el_id D = Some (extractResourceType (sd_baseDefinition ?d)) \<longrightarrow>
              el_path D = extractResourceType (sd_baseDefinition ?d)) \<and>
           (el_path D = extractResourceType (sd_baseDefinition ?d) \<longrightarrow>
              el_id D = None \<or> el_id D = Some (extractResourceType (sd_baseDefinition ?d)))"
    by (simp only: rt) (simp add: element_def officialSlice_def namedRoot_def)
  from first_element_is_resource_type [OF 1 2 3 4 5 6, of codeUnitCompare]
  have "\<exists>r w' e es.
      generateSnapshot codeUnitCompare ?d (corePackage patientBase) = (Inr r, w') \<and>
      sd_snapshot r = Some (e # es) \<and> el_path e = ''Patient''"
    by (simp only: rt)
  moreover from 5 have "\<forall>e\<in>set patientBase \<union> set [officialSlice, namedRoot].
      underType ''Patient'' (el_path e)"
    by (simp only: rt patientBase_def)
  then have "list_all (\<lambda>e. underType ''Patient'' (el_path e))
      (patientBase @ [officialSlice, namedRoot])"
    by (simp only: list_all_iff set_append)
  ultimately show ?thesis using 1 load_patient by blast
qed

section \<open>The two files\<close>

text \<open>
  Claim C9. The two files do not return the same document. For the profile on Patient
  with an empty differential and the four base elements above, the results differ
  whatever the collation; with comparison by code units the newer file returns the
  elements in path order and the older file returns them by depth, Patient.gender
  before Patient.contact.name. In general the newer file returns the older file's
  result reordered by path (\<open>generateSnapshot_reorders_snapshotGenerator\<close>).
\<close>

theorem variants_differ:
  "fst (generateSnapshot lc (patientProfile (Some [])) (corePackage patientBase))
     \<noteq> fst (generateSnapshot_snapshotGenerator lc (patientProfile (Some []))
             (corePackage patientBase)) \<and>
   fst (generateSnapshot codeUnitCompare (patientProfile (Some [])) (corePackage patientBase))
     = Inr ((patientProfile (Some []))
              \<lparr> sd_differential := None, sd_snapshot := Some patientBase \<rparr>) \<and>
   fst (generateSnapshot_snapshotGenerator codeUnitCompare (patientProfile (Some []))
          (corePackage patientBase))
     = Inr ((patientProfile (Some []))
              \<lparr> sd_differential := None,
                sd_snapshot :=
                  Some [patientBase ! 0, patientBase ! 1, patientBase ! 3, patientBase ! 2] \<rparr>)"
proof -
  have le: "codeUnitCompare ''Patient.contact'' ''Patient.gender'' \<le> 0"
    by (simp add: codeUnitCompare_def)
  have "fst (generateSnapshot lc (patientProfile (Some [])) (corePackage patientBase))
     \<noteq> fst (generateSnapshot_snapshotGenerator lc (patientProfile (Some []))
             (corePackage patientBase))"
    by (simp add: patientBase_snapshot
          generateSnapshot_snapshotGenerator_cases [OF differential_patientProfile]
          extract_patient load_patient hd_patientBase applyDifferential_Nil Let_def
          sortBy_patientBase)
       (simp add: patientBase_def patient_def element_def patientProfile_def document_def)
  moreover have "fst (generateSnapshot_snapshotGenerator codeUnitCompare
          (patientProfile (Some [])) (corePackage patientBase))
     = Inr ((patientProfile (Some []))
              \<lparr> sd_differential := None,
                sd_snapshot :=
                  Some [patientBase ! 0, patientBase ! 1, patientBase ! 3, patientBase ! 2] \<rparr>)"
    by (simp add: generateSnapshot_snapshotGenerator_cases [OF differential_patientProfile]
          extract_patient load_patient hd_patientBase applyDifferential_Nil Let_def
          sortBy_patientBase le)
  ultimately show ?thesis using patientBase_snapshot [of codeUnitCompare] by blast
qed

end
